theory Spec2Isabelle
  imports Complex_Main
begin

section \<open>The custom agent of examples/custom\_agent.py\<close>

text \<open>
  A shallow embedding of the class \<open>CustomAgent\<close>. Conventions of the model:
  \<^item> a Python \<open>float\<close> is a \<open>real\<close>: arithmetic is exact, rounding, overflow and NaN
    are not part of the model, so that no property below rests on how a sum or a
    product is rounded;
  \<^item> a Python \<open>dict\<close> is an association list in insertion order (the order decides
    \<open>list(d.keys())\<close> and the first maximum found by \<open>max\<close>);
  \<^item> a state is its string form: \<open>str(state)\<close> is the identity on the model's states;
  \<^item> the draws of \<open>random\<close> and the clock of \<open>datetime.now()\<close> are arguments;
  \<^item> an exception is a value \<open>Inl e\<close>; a \<open>try ... except Exception\<close> is the
    \<open>case\<close> that turns \<open>Inl e\<close> into the fallback;
  \<^item> a call of \<open>logger\<close> at level INFO or above appends a line to the file
    \<open>agent_log.log\<close> (the module's FileHandler): that file is part of the storage; a
    call at level DEBUG writes nothing, the level of the module being INFO;
  \<^item> a path is the name of one file: two names of the same file are outside the model;
  \<^item> lines 86 and 87 of the source (\<open>pub total_supply: u64,\<close> and \<open>}\<close>) are not
    Python; \<open>save_config\<close> is modelled from the Python statements around them.
\<close>

subsection \<open>Dictionaries\<close>

type_synonym ('k, 'v) dict = "('k \<times> 'v) list"

definition dict_keys :: "('k, 'v) dict \<Rightarrow> 'k list" where
  "dict_keys d = map fst d"

definition dict_get :: "('k, 'v) dict \<Rightarrow> 'k \<Rightarrow> 'v option" where
  "dict_get d k = map_of d k"

text \<open>\<open>d.get(k, default)\<close>\<close>

definition dict_get_or :: "('k, 'v) dict \<Rightarrow> 'k \<Rightarrow> 'v \<Rightarrow> 'v" where
  "dict_get_or d k dflt = (case map_of d k of None \<Rightarrow> dflt | Some v \<Rightarrow> v)"

text \<open>\<open>d[k] = v\<close>: an existing key keeps its place, a new key goes to the end.\<close>

fun dict_set :: "'k \<Rightarrow> 'v \<Rightarrow> ('k, 'v) dict \<Rightarrow> ('k, 'v) dict" where
  "dict_set k v [] = [(k, v)]"
| "dict_set k v (p # ps) = (if fst p = k then (k, v) # ps else p # dict_set k v ps)"

definition well_keyed :: "('k, 'v) dict \<Rightarrow> bool" where
  "well_keyed d = distinct (map fst d)"

subsection \<open>Exceptions, random draws\<close>

datatype py_error =
  IndexError | ValueError | KeyError | OSError | JSONDecodeError | AttributeError

text \<open>
  \<open>random.choice(seq)\<close>: IndexError on an empty sequence, otherwise the element at
  the drawn position; a draw \<open>i\<close> is read modulo the length.
\<close>

definition random_choice :: "nat \<Rightarrow> 'a list \<Rightarrow> py_error + 'a" where
  "random_choice i xs = (if xs = [] then Inl IndexError else Inr (xs ! (i mod length xs)))"

text \<open>
  \<open>max(d, key=d.get)\<close>: ValueError on an empty dict, otherwise the first key, in
  iteration order, whose value no later value exceeds strictly.
\<close>

fun max_from :: "'k \<Rightarrow> real \<Rightarrow> ('k, real) dict \<Rightarrow> 'k" where
  "max_from best bv [] = best"
| "max_from best bv ((k, v) # rest) =
     (if bv < v then max_from k v rest else max_from best bv rest)"

definition max_by_value :: "('k, real) dict \<Rightarrow> py_error + 'k" where
  "max_by_value d = (case d of [] \<Rightarrow> Inl ValueError | (k, v) # rest \<Rightarrow> Inr (max_from k v rest))"

subsection \<open>The agent and the storage\<close>

type_synonym row = "(string, real) dict"
type_synonym table = "(string, row) dict"

record agent =
  agent_id :: string
  behaviors :: "(string, real) dict"
  learning_rate :: real
  exploration_rate :: real
  config_path :: string
  experience :: table
  current_state :: "string option"
  total_rewards :: real

text \<open>
  The JSON document of \<open>save_config\<close>. Each key may be missing, as
  \<open>config.get\<close> allows; the values present have the types \<open>save_config\<close> writes.
\<close>

record persisted =
  p_agent_id :: "string option"
  p_behaviors :: "(string, real) dict option"
  p_experience :: "table option"
  p_total_rewards :: "real option"
  p_timestamp :: "string option"

text \<open>
  What a path that exists holds: something \<open>open\<close> cannot read, text that is not
  JSON, JSON that is not an object (no \<open>get\<close>), or a document.
\<close>

datatype file_content = Unreadable | NotJSON | NotObject | Doc persisted

record storage =
  files :: "string \<Rightarrow> file_content option"
  read_only :: "string \<Rightarrow> bool"

definition path_exists :: "storage \<Rightarrow> string \<Rightarrow> bool" where
  "path_exists fs p = (files fs p \<noteq> None)"

text \<open>\<open>open(p, 'r')\<close> followed by \<open>json.load\<close>, on a path that exists.\<close>

definition json_load :: "storage \<Rightarrow> string \<Rightarrow> py_error + file_content" where
  "json_load fs p =
     (case files fs p of
        None \<Rightarrow> Inl OSError
      | Some Unreadable \<Rightarrow> Inl OSError
      | Some NotJSON \<Rightarrow> Inl JSONDecodeError
      | Some f \<Rightarrow> Inr f)"

text \<open>\<open>open(p, 'w')\<close> followed by \<open>json.dump\<close>: the whole content is replaced.\<close>

definition json_dump :: "persisted \<Rightarrow> string \<Rightarrow> storage \<Rightarrow> py_error + storage" where
  "json_dump doc p fs =
     (if read_only fs p then Inl OSError
      else Inr (fs\<lparr>files := (files fs)(p \<mapsto> Doc doc)\<rparr>))"

text \<open>
  The log file of the module, and what a line appended by the logger leaves there: text
  that is not JSON, whatever the file held.
\<close>

definition log_path :: string where
  "log_path = ''agent_log.log''"

definition log_append :: "storage \<Rightarrow> storage" where
  "log_append fs = fs\<lparr>files := (files fs)(log_path \<mapsto> NotJSON)\<rparr>"

subsection \<open>Construction and persistence\<close>

definition load_config_body :: "storage \<Rightarrow> agent \<Rightarrow> py_error + agent" where
  "load_config_body fs a =
     (if path_exists fs (config_path a) then
        (case json_load fs (config_path a) of
           Inl e \<Rightarrow> Inl e
         | Inr (Doc config) \<Rightarrow>
             (if p_agent_id config = Some (agent_id a) then
                Inr (a\<lparr>behaviors := (case p_behaviors config of None \<Rightarrow> behaviors a | Some b \<Rightarrow> b),
                       experience := (case p_experience config of None \<Rightarrow> [] | Some x \<Rightarrow> x),
                       total_rewards := (case p_total_rewards config of None \<Rightarrow> 0 | Some t \<Rightarrow> t)\<rparr>)
              else Inr a)
         | Inr _ \<Rightarrow> Inl AttributeError)
      else Inr a)"

definition load_config :: "storage \<Rightarrow> agent \<Rightarrow> agent" where
  "load_config fs a = (case load_config_body fs a of Inl e \<Rightarrow> a | Inr a' \<Rightarrow> a')"

text \<open>
  \<open>__init__\<close>: the fields, a line in the log, then \<open>load_config\<close>. \<open>init\<close> is the agent
  constructed, \<open>construct\<close> the agent with the storage the constructor leaves
  (\<open>load_config\<close> logs on each of its paths).
\<close>

definition init :: "string \<Rightarrow> (string, real) dict \<Rightarrow> real \<Rightarrow> real \<Rightarrow> string \<Rightarrow> storage \<Rightarrow> agent" where
  "init aid bs lr er path fs =
     load_config (log_append fs)
       \<lparr>agent_id = aid, behaviors = bs, learning_rate = lr, exploration_rate = er,
        config_path = path, experience = [], current_state = None, total_rewards = 0\<rparr>"

definition save_config_body :: "string \<Rightarrow> agent \<Rightarrow> storage \<Rightarrow> py_error + storage" where
  "save_config_body now a fs =
     json_dump
       \<lparr>p_agent_id = Some (agent_id a), p_behaviors = Some (behaviors a),
        p_experience = Some (experience a), p_total_rewards = Some (total_rewards a),
        p_timestamp = Some now\<rparr>
       (config_path a) fs"

text \<open>Both ways out of \<open>save_config\<close> log: \<open>logger.info\<close> after the dump, \<open>logger.error\<close> in the handler.\<close>

definition save_config :: "string \<Rightarrow> agent \<Rightarrow> storage \<Rightarrow> storage" where
  "save_config now a fs =
     log_append (case save_config_body now a fs of Inl e \<Rightarrow> fs | Inr fs' \<Rightarrow> fs')"

definition construct :: "string \<Rightarrow> (string, real) dict \<Rightarrow> real \<Rightarrow> real \<Rightarrow> string \<Rightarrow> storage
    \<Rightarrow> agent \<times> storage" where
  "construct aid bs lr er path fs = (init aid bs lr er path fs, log_append fs)"

subsection \<open>The decision and update cycle\<close>

text \<open>\<open>{b: 0.0 for b in self.behaviors.keys()}\<close>\<close>

definition fresh_row :: "agent \<Rightarrow> row" where
  "fresh_row a = map (\<lambda>b. (b, 0)) (dict_keys (behaviors a))"

definition set_state :: "string \<Rightarrow> agent \<Rightarrow> agent" where
  "set_state state a =
     (let a1 = a\<lparr>current_state := Some state\<rparr>
      in if dict_get (experience a1) state = None
         then a1\<lparr>experience := dict_set state (fresh_row a1) (experience a1)\<rparr>
         else a1)"

text \<open>
  \<open>choose_action\<close> has no \<open>try\<close>: what \<open>random.choice\<close> or \<open>max\<close> raises reaches
  the caller. \<open>u\<close> is the value of \<open>random.random()\<close>, \<open>i\<close> the position drawn by
  \<open>random.choice\<close>.
\<close>

definition choose_action :: "agent \<Rightarrow> real \<Rightarrow> nat \<Rightarrow> py_error + string" where
  "choose_action a u i =
     (case current_state a of
        None \<Rightarrow> random_choice i (dict_keys (behaviors a))
      | Some s \<Rightarrow>
          (if u < exploration_rate a then random_choice i (dict_keys (behaviors a))
           else max_by_value (dict_get_or (experience a) s (fresh_row a))))"

text \<open>\<open>noise\<close> is the value of \<open>random.uniform(-0.1, 0.1)\<close>; no statement of the body raises.\<close>

definition perform_action :: "agent \<Rightarrow> string \<Rightarrow> real \<Rightarrow> real" where
  "perform_action a action noise = dict_get_or (behaviors a) action 0 + noise"

definition update_learning_body :: "string \<Rightarrow> real \<Rightarrow> agent \<Rightarrow> py_error + agent" where
  "update_learning_body action reward a =
     (case current_state a of
        None \<Rightarrow> Inr a
      | Some s \<Rightarrow>
          (case dict_get (experience a) s of
             None \<Rightarrow> Inl KeyError
           | Some r \<Rightarrow>
               (let current_value = dict_get_or r action 0;
                    new_value = current_value + learning_rate a * (reward - current_value)
                in Inr (a\<lparr>experience := dict_set s (dict_set action new_value r) (experience a),
                          behaviors := dict_set action
                            (dict_get_or (behaviors a) action 0 + learning_rate a * reward)
                            (behaviors a),
                          total_rewards := total_rewards a + reward\<rparr>))))"

definition update_learning :: "string \<Rightarrow> real \<Rightarrow> agent \<Rightarrow> agent" where
  "update_learning action reward a =
     (case update_learning_body action reward a of Inl e \<Rightarrow> a | Inr a' \<Rightarrow> a')"

subsection \<open>Evolution and summary\<close>

record draw =
  unit_draw :: real
  index_draw :: nat
  noise_draw :: real
  stamp :: string

record entry =
  e_state :: string
  e_action :: string
  e_reward :: real
  e_total_rewards :: real
  e_timestamp :: string

fun show_nat :: "nat \<Rightarrow> string" where
  "show_nat n =
     (if n < 10 then [''0123456789'' ! n]
      else show_nat (n div 10) @ [''0123456789'' ! (n mod 10)])"

declare show_nat.simps [simp del]

text \<open>
  \<open>state_sequence if state_sequence else [f"state_{i}" for i in range(num_iterations)]\<close>:
  \<open>None\<close> and the empty list are both false.
\<close>

definition iterations :: "int \<Rightarrow> string list option \<Rightarrow> string list" where
  "iterations num_iterations state_sequence =
     (case state_sequence of
        Some (s # ss) \<Rightarrow> s # ss
      | _ \<Rightarrow> map (\<lambda>i. ''state_'' @ show_nat i) [0 ..< nat num_iterations])"

text \<open>
  The \<open>for\<close> loop of \<open>evolve\<close>; \<open>rnd n\<close> holds the draws of iteration \<open>n\<close>. The first
  component is the exception that left the loop, if one did.
\<close>

fun evolve_loop :: "(nat \<Rightarrow> draw) \<Rightarrow> nat \<Rightarrow> string list \<Rightarrow> agent \<Rightarrow> entry list
    \<Rightarrow> py_error option \<times> agent \<times> entry list" where
  "evolve_loop rnd n [] a history = (None, a, history)"
| "evolve_loop rnd n (state # rest) a history =
     (let a1 = set_state state a
      in case choose_action a1 (unit_draw (rnd n)) (index_draw (rnd n)) of
           Inl e \<Rightarrow> (Some e, a1, history)
         | Inr action \<Rightarrow>
             (let reward = perform_action a1 action (noise_draw (rnd n));
                  a2 = update_learning action reward a1
              in evolve_loop rnd (Suc n) rest a2
                   (history @ [\<lparr>e_state = state, e_action = action, e_reward = reward,
                                e_total_rewards = total_rewards a2,
                                e_timestamp = stamp (rnd n)\<rparr>])))"

text \<open>
  \<open>evolve\<close>: every iteration logs (\<open>perform_action\<close> and the line that closes the
  iteration, or the handler of \<open>evolve\<close> when \<open>choose_action\<close> raises); \<open>save_config\<close>
  runs after a loop that ended without an exception.
\<close>

definition evolve :: "int \<Rightarrow> string list option \<Rightarrow> (nat \<Rightarrow> draw) \<Rightarrow> string
    \<Rightarrow> agent \<times> storage \<Rightarrow> entry list \<times> agent \<times> storage" where
  "evolve num_iterations state_sequence rnd now w =
     (case evolve_loop rnd 0 (iterations num_iterations state_sequence) (fst w) [] of
        (None, a, history) \<Rightarrow>
          (history, a,
           save_config now a
             (if iterations num_iterations state_sequence = [] then snd w else log_append (snd w)))
      | (Some e, a, history) \<Rightarrow> (history, a, log_append (snd w)))"

record summary =
  s_agent_id :: string
  s_behaviors :: "(string, real) dict"
  s_total_rewards :: real
  s_exploration_rate :: real
  s_learning_rate :: real
  s_experience_states :: nat

definition get_summary :: "agent \<Rightarrow> summary" where
  "get_summary a =
     \<lparr>s_agent_id = agent_id a, s_behaviors = behaviors a, s_total_rewards = total_rewards a,
      s_exploration_rate = exploration_rate a, s_learning_rate = learning_rate a,
      s_experience_states = length (experience a)\<rparr>"

subsection \<open>Sequences of public operations\<close>

datatype op =
  LoadConfig
| SaveConfig string
| SetState string
| ChooseAction real nat
| PerformAction string real
| UpdateLearning string real
| Evolve int "string list option" "nat \<Rightarrow> draw" string
| GetSummary

text \<open>
  Whether \<open>update_learning\<close> logs above DEBUG: the warning without a current state, the
  error of the handler.
\<close>

definition update_learning_logs :: "string \<Rightarrow> real \<Rightarrow> agent \<Rightarrow> bool" where
  "update_learning_logs action reward a =
     (case update_learning_body action reward a of
        Inl e \<Rightarrow> True
      | Inr a' \<Rightarrow> current_state a = None)"

text \<open>
  The effect of one call on the agent and the storage. A call that only returns a value,
  or that raises, leaves the agent as it is. The storage takes the lines of the log:
  \<open>load_config\<close> logs on each path, \<open>set_state\<close> at DEBUG only, \<open>choose_action\<close> a
  warning when no state is set, \<open>perform_action\<close> always.
\<close>

fun step :: "op \<Rightarrow> agent \<times> storage \<Rightarrow> agent \<times> storage" where
  "step LoadConfig (a, fs) = (load_config fs a, log_append fs)"
| "step (SaveConfig now) (a, fs) = (a, save_config now a fs)"
| "step (SetState s) (a, fs) = (set_state s a, fs)"
| "step (ChooseAction u i) (a, fs) = (a, if current_state a = None then log_append fs else fs)"
| "step (PerformAction action noise) (a, fs) = (a, log_append fs)"
| "step (UpdateLearning action reward) (a, fs) =
     (update_learning action reward a,
      if update_learning_logs action reward a then log_append fs else fs)"
| "step (Evolve n ss rnd now) (a, fs) = snd (evolve n ss rnd now (a, fs))"
| "step GetSummary (a, fs) = (a, fs)"

definition run :: "op list \<Rightarrow> agent \<times> storage \<Rightarrow> agent \<times> storage" where
  "run ops w = fold step ops w"

subsection \<open>Concrete inputs\<close>

definition no_files :: storage where
  "no_files = \<lparr>files = (\<lambda>p. None), read_only = (\<lambda>p. False)\<rparr>"

definition demo :: agent where
  "demo = init ''agent_001'' [(''stake'', 0.5), (''claim'', 0.3)] 0.1 0.2 ''cfg.json'' no_files"

definition other_doc :: persisted where
  "other_doc =
     \<lparr>p_agent_id = Some ''agent_002'', p_behaviors = Some [(''idle'', 0.1)],
      p_experience = Some [(''login'', [(''idle'', 0.7)])], p_total_rewards = Some 3,
      p_timestamp = Some ''2024-01-01T00:00:00''\<rparr>"

definition other_storage :: storage where
  "other_storage = \<lparr>files = (\<lambda>p. if p = ''cfg.json'' then Some (Doc other_doc) else None),
     read_only = (\<lambda>p. False)\<rparr>"

text \<open>An agent that saves, sets a state and then loads what it saved.\<close>

definition reloaded :: "agent \<times> storage" where
  "reloaded = run [SaveConfig ''t0'', SetState ''login'', LoadConfig] (demo, no_files)"

definition no_actions :: agent where
  "no_actions = set_state ''login'' (init ''agent_001'' [] 0.1 0 ''cfg.json'' no_files)"

definition greedy :: agent where
  "greedy = update_learning ''claim'' 4
     (set_state ''login'' (init ''agent_001'' [(''stake'', 0.5), (''claim'', 0.3)] 0.1 0 ''cfg.json'' no_files))"

text \<open>
  The keys of a row against a list \<open>ks\<close> of actions: all of them are in \<open>ks\<close>, and, when
  \<open>full\<close> is set, every action of \<open>ks\<close> is a key.
\<close>

definition row_ok :: "bool \<Rightarrow> string list \<Rightarrow> row \<Rightarrow> bool" where
  "row_ok full ks r =
     (set (dict_keys r) \<subseteq> set ks \<and> (full \<longrightarrow> set ks \<subseteq> set (dict_keys r)))"

definition rows_keyed :: "bool \<Rightarrow> string list \<Rightarrow> table \<Rightarrow> bool" where
  "rows_keyed full ks x = list_all (\<lambda>(s, r). row_ok full ks r) x"

definition agent_ok :: "bool \<Rightarrow> string list \<Rightarrow> agent \<Rightarrow> bool" where
  "agent_ok full ks a =
     (set (dict_keys (behaviors a)) = set ks \<and> rows_keyed full ks (experience a))"

text \<open>
  What \<open>load_config\<close> would take over from a location: nothing, or a record of the
  agent whose behaviors have the key set of \<open>ks\<close> and whose rows are as \<open>row_ok\<close> says.
\<close>

definition stored_ok :: "bool \<Rightarrow> string list \<Rightarrow> string \<Rightarrow> string \<Rightarrow> storage \<Rightarrow> bool" where
  "stored_ok full ks aid path fs =
     (case files fs path of
        Some (Doc config) \<Rightarrow>
          p_agent_id config \<noteq> Some aid \<or>
          ((case p_behaviors config of None \<Rightarrow> True | Some b \<Rightarrow> set (dict_keys b) = set ks) \<and>
           (case p_experience config of None \<Rightarrow> True | Some x \<Rightarrow> rows_keyed full ks x))
      | _ \<Rightarrow> True)"

abbreviation record_within :: "string list \<Rightarrow> string \<Rightarrow> string \<Rightarrow> storage \<Rightarrow> bool" where
  "record_within ks aid path fs \<equiv> stored_ok False ks aid path fs"

abbreviation record_keyed :: "string list \<Rightarrow> string \<Rightarrow> string \<Rightarrow> storage \<Rightarrow> bool" where
  "record_keyed ks aid path fs \<equiv> stored_ok True ks aid path fs"

definition world_ok :: "bool \<Rightarrow> string list \<Rightarrow> string \<Rightarrow> string \<Rightarrow> agent \<times> storage \<Rightarrow> bool" where
  "world_ok full ks aid path w =
     (agent_ok full ks (fst w) \<and> agent_id (fst w) = aid \<and> config_path (fst w) = path \<and>
      stored_ok full ks aid path (snd w))"

text \<open>The calls of \<open>update_learning\<close> in a sequence all name an action of \<open>ks\<close>.\<close>

fun known_action :: "string list \<Rightarrow> op \<Rightarrow> bool" where
  "known_action ks (UpdateLearning action reward) = (action \<in> set ks)"
| "known_action ks _ = True"


text \<open>A storage whose document at \<open>cfg.json\<close> carries the identity \<open>agent_001\<close>.\<close>

definition own_doc :: persisted where
  "own_doc =
     \<lparr>p_agent_id = Some ''agent_001'', p_behaviors = Some [(''idle'', 0.1)],
      p_experience = Some [(''login'', [(''stake'', 0.7)])], p_total_rewards = Some 3,
      p_timestamp = Some ''2024-01-01T00:00:00''\<rparr>"

definition own_storage :: storage where
  "own_storage = \<lparr>files = (\<lambda>p. if p = ''cfg.json'' then Some (Doc own_doc) else None),
     read_only = (\<lambda>p. False)\<rparr>"

definition fixed_draws :: "nat \<Rightarrow> draw" where
  "fixed_draws n = \<lparr>unit_draw = 0.5, index_draw = n, noise_draw = 0, stamp = ''t''\<rparr>"

text \<open>A storage that refuses every write.\<close>

definition locked :: storage where
  "locked = \<lparr>files = (\<lambda>p. None), read_only = (\<lambda>p. True)\<rparr>"

text \<open>An agent that has learnt once, and its twin whose storage location is the log file.\<close>

definition learnt :: agent where
  "learnt = update_learning ''stake'' 1 (set_state ''login'' demo)"

definition log_twin :: agent where
  "log_twin = update_learning ''stake'' 1 (set_state ''login''
     (init ''agent_001'' [(''stake'', 0.5), (''claim'', 0.3)] 0.1 0.2 ''agent_log.log'' no_files))"

text \<open>
  A record of \<open>agent_001\<close> with the behaviors \<open>stake\<close>, and a row that also holds the
  key \<open>zed\<close>.
\<close>

definition stray_doc :: persisted where
  "stray_doc =
     \<lparr>p_agent_id = Some ''agent_001'', p_behaviors = Some [(''stake'', 0.5)],
      p_experience = Some [(''login'', [(''stake'', 0), (''zed'', 1)]), (''logout'', [(''stake'', 0)])],
      p_total_rewards = Some 0, p_timestamp = Some ''2024-01-01T00:00:00''\<rparr>"

definition stray_storage :: storage where
  "stray_storage = \<lparr>files = (\<lambda>p. if p = ''cfg.json'' then Some (Doc stray_doc) else None),
     read_only = (\<lambda>p. False)\<rparr>"

section \<open>Properties\<close>

subsection \<open>Dictionaries\<close>

lemma map_of_dict_set: "map_of (dict_set k v d) = (map_of d)(k \<mapsto> v)"
  by (induction d) (auto simp: fun_eq_iff)

lemma dict_get_dict_set: "dict_get (dict_set k v d) k' = (if k' = k then Some v else dict_get d k')"
  by (simp add: dict_get_def map_of_dict_set)

lemma dict_get_or_dict_set:
  "dict_get_or (dict_set k v d) k' z = (if k' = k then v else dict_get_or d k' z)"
  by (simp add: dict_get_or_def map_of_dict_set)

lemma keys_dict_set: "set (dict_keys (dict_set k v d)) = insert k (set (dict_keys d))"
  by (induction d) (auto simp: dict_keys_def)

lemma dict_get_None_iff: "dict_get d k = None \<longleftrightarrow> k \<notin> set (dict_keys d)"
  by (simp add: dict_get_def dict_keys_def map_of_eq_None_iff)

lemma well_keyed_dict_set: "well_keyed d \<Longrightarrow> well_keyed (dict_set k v d)"
  by (induction d) (auto simp: well_keyed_def keys_dict_set [unfolded dict_keys_def, simplified])

lemma keys_fresh_row: "dict_keys (fresh_row a) = dict_keys (behaviors a)"
  by (simp add: fresh_row_def dict_keys_def comp_def)

subsection \<open>Loading and saving\<close>

lemma load_config_cases:
  "load_config fs a = a \<or>
   (\<exists>config. files fs (config_path a) = Some (Doc config) \<and> p_agent_id config = Some (agent_id a) \<and>
      load_config fs a =
        a\<lparr>behaviors := (case p_behaviors config of None \<Rightarrow> behaviors a | Some b \<Rightarrow> b),
          experience := (case p_experience config of None \<Rightarrow> [] | Some x \<Rightarrow> x),
          total_rewards := (case p_total_rewards config of None \<Rightarrow> 0 | Some t \<Rightarrow> t)\<rparr>)"
  by (auto simp: load_config_def load_config_body_def json_load_def path_exists_def
      split: option.splits file_content.splits)

lemma files_log_append:
  "files (log_append fs) p = (if p = log_path then Some NotJSON else files fs p)"
  by (simp add: log_append_def)

lemma read_only_log_append: "read_only (log_append fs) = read_only fs"
  by (simp add: log_append_def)

lemma load_config_body_after_log:
  "config_path a \<noteq> log_path \<Longrightarrow> load_config_body (log_append fs) a = load_config_body fs a"
  by (simp add: load_config_body_def path_exists_def json_load_def files_log_append)

lemma load_config_after_log:
  "config_path a \<noteq> log_path \<Longrightarrow> load_config (log_append fs) a = load_config fs a"
  by (simp add: load_config_def load_config_body_after_log)

lemma cfg_not_log: "''cfg.json'' \<noteq> log_path"
  by (simp add: log_path_def)

lemma init_on_cfg:
  "init aid bs lr er ''cfg.json'' fs =
     load_config fs
       \<lparr>agent_id = aid, behaviors = bs, learning_rate = lr, exploration_rate = er,
        config_path = ''cfg.json'', experience = [], current_state = None, total_rewards = 0\<rparr>"
  by (simp add: init_def load_config_after_log cfg_not_log)

text \<open>
  C8. \<open>load_config\<close> changes neither \<open>learning_rate\<close> nor \<open>exploration_rate\<close>, whatever
  the storage holds (a matching document, another identity, no file, unreadable or
  unparsable content); after construction both rates are the constructor's arguments.
\<close>

theorem C8_load_keeps_rates:
  "learning_rate (load_config fs a) = learning_rate a \<and>
   exploration_rate (load_config fs a) = exploration_rate a \<and>
   learning_rate (init aid bs lr er path fs) = lr \<and>
   exploration_rate (init aid bs lr er path fs) = er"
proof -
  have keep: "learning_rate (load_config fs' b) = learning_rate b \<and>
      exploration_rate (load_config fs' b) = exploration_rate b" for fs' b
    using load_config_cases [of fs' b] by auto
  show ?thesis
    using keep [of fs a] keep [of "log_append fs"] by (simp add: init_def)
qed

text \<open>
  C9. When the storage location holds a document whose \<open>agent_id\<close> is not the identity
  of the agent under construction, the constructed agent is the constructor's defaults
  (the behaviors supplied, an empty table, reward 0), and the body of \<open>load_config\<close>
  ends without an exception.
\<close>

theorem C9_mismatch_keeps_defaults:
  assumes "files fs path = Some (Doc config)" and "p_agent_id config \<noteq> Some aid"
  shows "init aid bs lr er path fs =
           \<lparr>agent_id = aid, behaviors = bs, learning_rate = lr, exploration_rate = er,
            config_path = path, experience = [], current_state = None, total_rewards = 0\<rparr> \<and>
         load_config_body fs
           \<lparr>agent_id = aid, behaviors = bs, learning_rate = lr, exploration_rate = er,
            config_path = path, experience = [], current_state = None, total_rewards = 0\<rparr> =
         Inr \<lparr>agent_id = aid, behaviors = bs, learning_rate = lr, exploration_rate = er,
            config_path = path, experience = [], current_state = None, total_rewards = 0\<rparr>"
proof -
  let ?d = "\<lparr>agent_id = aid, behaviors = bs, learning_rate = lr, exploration_rate = er,
            config_path = path, experience = [], current_state = None, total_rewards = 0\<rparr>"
  have body: "load_config_body fs ?d = Inr ?d"
    using assms by (simp add: load_config_body_def json_load_def path_exists_def)
  have "load_config (log_append fs) ?d = ?d"
    using assms
    by (simp add: load_config_def load_config_body_def json_load_def path_exists_def
        files_log_append)
  then show ?thesis
    using body by (simp add: init_def)
qed

theorem C9_mismatch_keeps_defaults_witness:
  "files other_storage ''cfg.json'' = Some (Doc other_doc) \<and>
   p_agent_id other_doc \<noteq> Some ''agent_001'' \<and>
   init ''agent_001'' [(''stake'', 0.5)] 0.1 0.2 ''cfg.json'' other_storage =
     \<lparr>agent_id = ''agent_001'', behaviors = [(''stake'', 0.5)], learning_rate = 0.1,
      exploration_rate = 0.2, config_path = ''cfg.json'', experience = [],
      current_state = None, total_rewards = 0\<rparr>"
proof -
  have f: "files other_storage ''cfg.json'' = Some (Doc other_doc)"
    by (simp add: other_storage_def)
  have i: "p_agent_id other_doc \<noteq> Some ''agent_001''"
    by (simp add: other_doc_def)
  show ?thesis
    using C9_mismatch_keeps_defaults [OF f i, of "[(''stake'', 0.5)]" "0.1" "0.2"] f i by simp
qed

lemma demo_eq:
  "demo = \<lparr>agent_id = ''agent_001'', behaviors = [(''stake'', 0.5), (''claim'', 0.3)],
      learning_rate = 0.1, exploration_rate = 0.2, config_path = ''cfg.json'', experience = [],
      current_state = None, total_rewards = 0\<rparr>"
  by (simp add: demo_def init_on_cfg load_config_def load_config_body_def path_exists_def no_files_def)

lemma at_login_eq:
  "set_state ''login'' demo =
     \<lparr>agent_id = ''agent_001'', behaviors = [(''stake'', 0.5), (''claim'', 0.3)],
      learning_rate = 0.1, exploration_rate = 0.2, config_path = ''cfg.json'',
      experience = [(''login'', [(''stake'', 0), (''claim'', 0)])],
      current_state = Some ''login'', total_rewards = 0\<rparr>"
  by (simp add: demo_eq set_state_def dict_get_def fresh_row_def dict_keys_def)

lemma learnt_eq:
  "learnt = \<lparr>agent_id = ''agent_001'', behaviors = [(''stake'', 0.6), (''claim'', 0.3)],
      learning_rate = 0.1, exploration_rate = 0.2, config_path = ''cfg.json'',
      experience = [(''login'', [(''stake'', 0.1), (''claim'', 0)])],
      current_state = Some ''login'', total_rewards = 1\<rparr>"
  unfolding learnt_def at_login_eq
  by (simp add: update_learning_def update_learning_body_def dict_get_def dict_get_or_def)

lemma log_twin_eq:
  "log_twin = \<lparr>agent_id = ''agent_001'', behaviors = [(''stake'', 0.6), (''claim'', 0.3)],
      learning_rate = 0.1, exploration_rate = 0.2, config_path = ''agent_log.log'',
      experience = [(''login'', [(''stake'', 0.1), (''claim'', 0)])],
      current_state = Some ''login'', total_rewards = 1\<rparr>"
  by (simp add: log_twin_def init_def load_config_def load_config_body_def path_exists_def
      json_load_def files_log_append log_path_def set_state_def fresh_row_def dict_keys_def
      update_learning_def update_learning_body_def dict_get_def dict_get_or_def)

text \<open>
  C3. When the write of \<open>save_config\<close> goes through (the location is not read-only)
  and the location is not the log file, an agent constructed afterwards with the same
  identity and the same location has the behaviors, the table and the cumulative reward
  of the saved agent, whatever behaviors its constructor was given; its two rates are
  the constructor's arguments.
\<close>

theorem C3_save_then_construct:
  assumes "\<not> read_only fs (config_path a)" and "config_path a \<noteq> log_path"
  shows "behaviors (init (agent_id a) bs lr er (config_path a) (save_config now a fs)) = behaviors a \<and>
         experience (init (agent_id a) bs lr er (config_path a) (save_config now a fs)) = experience a \<and>
         total_rewards (init (agent_id a) bs lr er (config_path a) (save_config now a fs)) = total_rewards a \<and>
         learning_rate (init (agent_id a) bs lr er (config_path a) (save_config now a fs)) = lr \<and>
         exploration_rate (init (agent_id a) bs lr er (config_path a) (save_config now a fs)) = er"
proof -
  have saved: "files (log_append (save_config now a fs)) (config_path a) =
      Some (Doc \<lparr>p_agent_id = Some (agent_id a), p_behaviors = Some (behaviors a),
        p_experience = Some (experience a), p_total_rewards = Some (total_rewards a),
        p_timestamp = Some now\<rparr>)"
    using assms
    by (simp add: save_config_def save_config_body_def json_dump_def files_log_append)
  show ?thesis
    by (simp add: init_def load_config_def load_config_body_def json_load_def path_exists_def saved)
qed

theorem C3_save_then_construct_witness:
  "\<not> read_only no_files (config_path learnt) \<and> config_path learnt \<noteq> log_path \<and>
   behaviors (init ''agent_001'' [(''idle'', 9)] 0.5 0 ''cfg.json'' (save_config ''t1'' learnt no_files)) =
     [(''stake'', 0.6), (''claim'', 0.3)] \<and>
   experience (init ''agent_001'' [(''idle'', 9)] 0.5 0 ''cfg.json'' (save_config ''t1'' learnt no_files)) =
     [(''login'', [(''stake'', 0.1), (''claim'', 0)])] \<and>
   total_rewards (init ''agent_001'' [(''idle'', 9)] 0.5 0 ''cfg.json'' (save_config ''t1'' learnt no_files))
     = 1"
proof -
  have w: "\<not> read_only no_files (config_path learnt)"
    by (simp add: no_files_def)
  have p: "config_path learnt \<noteq> log_path"
    by (simp add: learnt_eq log_path_def)
  show ?thesis
    using C3_save_then_construct [OF w p, of "[(''idle'', 9)]" "0.5" 0 "''t1''"] w p
    by (simp add: learnt_eq)
qed

text \<open>
  Both conditions are needed. On a storage that refuses the write the handler of
  \<open>save_config\<close> swallows the error and the next construction finds nothing; with the log
  file as location the line \<open>save_config\<close> logs after the dump lands in the document, and
  the next construction cannot parse the file. Either way the new agent has the defaults.
\<close>

theorem C3_lost_save_counterexample:
  "total_rewards learnt = 1 \<and>
   total_rewards (init (agent_id learnt) [(''stake'', 0.5), (''claim'', 0.3)] 0.1 0.2 (config_path learnt)
      (save_config ''t1'' learnt locked)) = 0 \<and>
   total_rewards log_twin = 1 \<and>
   total_rewards (init (agent_id log_twin) [(''stake'', 0.5), (''claim'', 0.3)] 0.1 0.2
      (config_path log_twin) (save_config ''t1'' log_twin no_files)) = 0"
  by (simp add: learnt_eq log_twin_eq init_def load_config_def load_config_body_def path_exists_def
      json_load_def files_log_append log_path_def save_config_def save_config_body_def
      json_dump_def locked_def no_files_def)

text \<open>
  C1. \<open>choose_action\<close> on an agent constructed with an empty behaviors mapping: without
  a current state \<open>random.choice\<close> raises IndexError, with a state and no exploration
  \<open>max\<close> raises ValueError, and no handler stands between either and the caller.
\<close>

theorem C1_choose_action_raises:
  "choose_action (init ''agent_001'' [] 0.1 0.2 ''cfg.json'' no_files) u i = Inl IndexError \<and>
   choose_action (set_state ''login'' (init ''agent_001'' [] 0.1 0.2 ''cfg.json'' no_files)) 0.5 i
     = Inl ValueError"
  by (simp add: choose_action_def init_on_cfg load_config_def load_config_body_def path_exists_def
      no_files_def set_state_def fresh_row_def dict_get_def dict_get_or_def dict_keys_def
      random_choice_def max_by_value_def)

subsection \<open>The update\<close>

lemma reloaded_eq:
  "fst reloaded = \<lparr>agent_id = ''agent_001'', behaviors = [(''stake'', 0.5), (''claim'', 0.3)],
      learning_rate = 0.1, exploration_rate = 0.2, config_path = ''cfg.json'', experience = [],
      current_state = Some ''login'', total_rewards = 0\<rparr>"
  by (simp add: reloaded_def run_def demo_eq no_files_def save_config_def save_config_body_def
      json_dump_def set_state_def dict_get_def fresh_row_def dict_keys_def
      load_config_def load_config_body_def path_exists_def json_load_def
      files_log_append log_path_def)

lemma update_learning_row:
  assumes "current_state a = Some s" and "dict_get (experience a) s = Some r"
  shows "update_learning action reward a =
     a\<lparr>experience := dict_set s
          (dict_set action
             (dict_get_or r action 0 + learning_rate a * (reward - dict_get_or r action 0)) r)
          (experience a),
       behaviors := dict_set action
          (dict_get_or (behaviors a) action 0 + learning_rate a * reward) (behaviors a),
       total_rewards := total_rewards a + reward\<rparr>"
  using assms by (simp add: update_learning_def update_learning_body_def Let_def)

text \<open>
  C5. For an agent whose current state is set and has its row in the table,
  \<open>update_learning action reward\<close> replaces the row by the row with the entry of
  \<open>action\<close> set to \<open>old + learning_rate * (reward - old)\<close>, where \<open>old\<close> is the entry
  before (0 when absent), sets \<open>behaviors[action]\<close> to
  \<open>behaviors.get(action, 0) + learning_rate * reward\<close> and adds \<open>reward\<close> to the
  cumulative reward; when \<open>old\<close> is 0, as in a fresh row, the new entry is
  \<open>learning_rate * reward\<close>.
\<close>

theorem C5_update_learning_values:
  assumes "current_state a = Some s" and "dict_get (experience a) s = Some r"
  shows "\<exists>r'. dict_get (experience (update_learning action reward a)) s = Some r' \<and>
           r' = dict_set action
                  (dict_get_or r action 0 + learning_rate a * (reward - dict_get_or r action 0)) r \<and>
           dict_get r' action =
             Some (dict_get_or r action 0 + learning_rate a * (reward - dict_get_or r action 0)) \<and>
           (dict_get_or r action 0 = 0 \<longrightarrow> dict_get r' action = Some (learning_rate a * reward)) \<and>
           dict_get (behaviors (update_learning action reward a)) action =
             Some (dict_get_or (behaviors a) action 0 + learning_rate a * reward) \<and>
           total_rewards (update_learning action reward a) = total_rewards a + reward"
  by (simp add: update_learning_row [OF assms] dict_get_dict_set)

theorem C5_update_learning_values_witness:
  "current_state (set_state ''login'' demo) = Some ''login'' \<and>
   dict_get (experience (set_state ''login'' demo)) ''login'' = Some [(''stake'', 0), (''claim'', 0)] \<and>
   dict_get_or [(''stake'', 0), (''claim'', 0)] ''stake'' 0 = (0::real) \<and>
   dict_get (experience (update_learning ''stake'' 2 (set_state ''login'' demo))) ''login''
     = Some [(''stake'', 0.2), (''claim'', 0)] \<and>
   dict_get (behaviors (update_learning ''stake'' 2 (set_state ''login'' demo))) ''stake'' = Some 0.7 \<and>
   total_rewards (update_learning ''stake'' 2 (set_state ''login'' demo)) = 2"
proof -
  have st: "set_state ''login'' demo =
     \<lparr>agent_id = ''agent_001'', behaviors = [(''stake'', 0.5), (''claim'', 0.3)],
      learning_rate = 0.1, exploration_rate = 0.2, config_path = ''cfg.json'',
      experience = [(''login'', [(''stake'', 0), (''claim'', 0)])],
      current_state = Some ''login'', total_rewards = 0\<rparr>"
    by (simp add: demo_eq set_state_def dict_get_def fresh_row_def dict_keys_def)
  have cs: "current_state (set_state ''login'' demo) = Some ''login''"
    by (simp add: st)
  have row: "dict_get (experience (set_state ''login'' demo)) ''login''
      = Some [(''stake'', 0), (''claim'', 0)]"
    by (simp add: st dict_get_def)
  have old: "dict_get_or [(''stake'', 0), (''claim'', 0)] ''stake'' 0 = (0::real)"
    by (simp add: dict_get_or_def)
  show ?thesis
    using C5_update_learning_values [OF cs row, where action = "''stake''" and reward = 2] cs row old
    by (simp add: st dict_get_or_def)
qed

text \<open>
  Without the row the property is lost. An agent that saved, set a state and loaded
  what it had saved has a current state and no row for it: the lookup of the row raises
  KeyError, the handler swallows it and nothing is updated.
\<close>

theorem C5_no_row_counterexample:
  "current_state (fst reloaded) = Some ''login'' \<and>
   total_rewards (update_learning ''stake'' 1 (fst reloaded)) \<noteq> total_rewards (fst reloaded) + 1 \<and>
   dict_get (experience (update_learning ''stake'' 1 (fst reloaded))) ''login'' = None \<and>
   update_learning_body ''stake'' 1 (fst reloaded) = Inl KeyError"
  by (simp add: reloaded_eq update_learning_def update_learning_body_def dict_get_def)



subsection \<open>The greedy choice\<close>

lemma max_from_greatest:
  "\<exists>v. (max_from b bv rest, v) \<in> set ((b, bv) # rest) \<and> (\<forall>(k, w) \<in> set ((b, bv) # rest). w \<le> v)"
proof (induction rest arbitrary: b bv)
  case Nil
  show ?case by simp
next
  case (Cons p rest)
  obtain k w where p: "p = (k, w)" by (cases p)
  show ?case
  proof (cases "bv < w")
    case True
    from Cons.IH [of k w] obtain v where
      v: "(max_from k w rest, v) \<in> set ((k, w) # rest)" "\<forall>(k', w') \<in> set ((k, w) # rest). w' \<le> v"
      by blast
    from v(2) have "w \<le> v" by simp
    with True have "bv \<le> v" by simp
    with v True show ?thesis unfolding p by auto
  next
    case False
    from Cons.IH [of b bv] obtain v where
      v: "(max_from b bv rest, v) \<in> set ((b, bv) # rest)" "\<forall>(k', w') \<in> set ((b, bv) # rest). w' \<le> v"
      by blast
    from v(2) have "bv \<le> v" by simp
    with False have "w \<le> v" by simp
    with v False show ?thesis unfolding p by auto
  qed
qed

lemma max_by_value_greatest:
  assumes "d \<noteq> []"
  shows "\<exists>act v. max_by_value d = Inr act \<and> (act, v) \<in> set d \<and> (\<forall>(k, w) \<in> set d. w \<le> v)"
proof -
  from assms obtain b bv rest where d: "d = (b, bv) # rest"
    by (cases d) auto
  from max_from_greatest [of b bv rest] show ?thesis
    unfolding d by (simp add: max_by_value_def)
qed

text \<open>
  C6. With \<open>exploration_rate = 0\<close>, a current state set and a row for it that
  is not empty (the stored row, or the all-zero row when the table has none),
  \<open>choose_action\<close> returns an action whose value in that row is the greatest value of
  the row; an action whose value is strictly above every other value is the one
  returned. \<open>u\<close>, the value of \<open>random.random()\<close>, is not negative; the row, a dict, has no
  key twice.
\<close>

theorem C6_greedy_choice_is_maximal:
  assumes "current_state a = Some s" and "exploration_rate a = 0" and "0 \<le> u"
    and "dict_get_or (experience a) s (fresh_row a) = r" and "r \<noteq> []" and "well_keyed r"
  shows "\<exists>act v. choose_action a u i = Inr act \<and> dict_get r act = Some v \<and>
           (\<forall>k w. dict_get r k = Some w \<longrightarrow> w \<le> v) \<and>
           (\<forall>k w. dict_get r k = Some w \<and>
                  (\<forall>k' w'. k' \<noteq> k \<and> dict_get r k' = Some w' \<longrightarrow> w' < w) \<longrightarrow> act = k)"
proof -
  from max_by_value_greatest [OF assms(5)] obtain act v where
    m: "max_by_value r = Inr act" "(act, v) \<in> set r" "\<forall>(k, w) \<in> set r. w \<le> v"
    by blast
  have mem: "dict_get r k = Some w \<longleftrightarrow> (k, w) \<in> set r" for k w
    using assms(6) by (simp add: dict_get_def well_keyed_def)
  have c: "choose_action a u i = Inr act"
    using assms(1-4) m(1) by (simp add: choose_action_def)
  have top: "\<forall>k w. dict_get r k = Some w \<longrightarrow> w \<le> v"
    using m(3) by (auto simp: mem)
  have uniq: "act = k"
    if "dict_get r k = Some w" and "\<forall>k' w'. k' \<noteq> k \<and> dict_get r k' = Some w' \<longrightarrow> w' < w" for k w
  proof (rule ccontr)
    assume "act \<noteq> k"
    with that(2) m(2) have "v < w" by (simp add: mem)
    moreover from top that(1) have "w \<le> v" by blast
    ultimately show False by simp
  qed
  show ?thesis
    using c m(2) top uniq by (auto simp: mem)
qed

lemma greedy_eq:
  "greedy = \<lparr>agent_id = ''agent_001'', behaviors = [(''stake'', 0.5), (''claim'', 0.7)],
      learning_rate = 0.1, exploration_rate = 0, config_path = ''cfg.json'',
      experience = [(''login'', [(''stake'', 0), (''claim'', 0.4)])],
      current_state = Some ''login'', total_rewards = 4\<rparr>"
  by (simp add: greedy_def init_on_cfg load_config_def load_config_body_def path_exists_def no_files_def
      set_state_def dict_get_def fresh_row_def dict_keys_def update_learning_def
      update_learning_body_def dict_get_or_def)

theorem C6_greedy_choice_is_maximal_witness:
  "current_state greedy = Some ''login'' \<and> exploration_rate greedy = 0 \<and> (0::real) \<le> 0.5 \<and>
   dict_get_or (experience greedy) ''login'' (fresh_row greedy) = [(''stake'', 0), (''claim'', 0.4)] \<and>
   [(''stake'', 0), (''claim'', 0.4::real)] \<noteq> [] \<and>
   well_keyed [(''stake'', 0), (''claim'', 0.4::real)] \<and>
   choose_action greedy 0.5 7 = Inr ''claim'' \<and>
   dict_get [(''stake'', 0), (''claim'', 0.4::real)] ''claim'' = Some 0.4"
proof -
  have h1: "current_state greedy = Some ''login''" and h2: "exploration_rate greedy = 0"
    by (simp_all add: greedy_eq)
  have h3: "(0::real) \<le> 0.5" by simp
  have h4: "dict_get_or (experience greedy) ''login'' (fresh_row greedy)
      = [(''stake'', 0), (''claim'', 0.4)]"
    by (simp add: greedy_eq dict_get_or_def)
  have h5: "[(''stake'', 0), (''claim'', 0.4::real)] \<noteq> []" by simp
  have h6: "well_keyed [(''stake'', 0), (''claim'', 0.4::real)]"
    by (simp add: well_keyed_def)
  have c: "choose_action greedy 0.5 7 = Inr ''claim''"
    by (simp add: choose_action_def h1 h2 h4 max_by_value_def)
  have g: "dict_get [(''stake'', 0), (''claim'', 0.4::real)] ''claim'' = Some 0.4"
    by (simp add: dict_get_def)
  show ?thesis
    using C6_greedy_choice_is_maximal [OF h1 h2 h3 h4 h5 h6, where i = 7] h1 h2 h3 h4 h5 h6 c g
    by simp
qed

text \<open>
  With an empty row the property is lost. For an agent without actions the row is empty and
  \<open>max\<close> raises ValueError.
\<close>

theorem C6_empty_row_counterexample:
  "current_state no_actions = Some ''login'' \<and> exploration_rate no_actions = 0 \<and>
   choose_action no_actions 0.5 0 = Inl ValueError"
  by (simp add: no_actions_def choose_action_def init_on_cfg load_config_def load_config_body_def
      path_exists_def no_files_def set_state_def fresh_row_def dict_get_def dict_get_or_def
      dict_keys_def max_by_value_def)

subsection \<open>What the operations keep\<close>

lemma set_dict_set: "set (dict_set k v d) \<subseteq> insert (k, v) (set d)"
  by (induction d) auto

lemma rows_keyed_dict_set:
  assumes "rows_keyed full ks x" and "row_ok full ks r"
  shows "rows_keyed full ks (dict_set s r x)"
  using assms set_dict_set [of s r x] by (auto simp: rows_keyed_def list_all_iff)

lemma rows_keyed_lookup:
  assumes "rows_keyed full ks x" and "dict_get x s = Some r"
  shows "row_ok full ks r"
proof -
  from assms(2) have "(s, r) \<in> set x"
    by (simp add: dict_get_def map_of_SomeD)
  with assms(1) show ?thesis
    by (auto simp: rows_keyed_def list_all_iff)
qed

lemma row_ok_exact: "set (dict_keys r) = set ks \<Longrightarrow> row_ok full ks r"
  by (simp add: row_ok_def)

lemma row_ok_dict_set: "row_ok full ks r \<Longrightarrow> k \<in> set ks \<Longrightarrow> row_ok full ks (dict_set k v r)"
  by (auto simp: row_ok_def keys_dict_set)

lemma set_state_frame:
  "agent_id (set_state s a) = agent_id a" "config_path (set_state s a) = config_path a"
  "behaviors (set_state s a) = behaviors a" "current_state (set_state s a) = Some s"
  by (simp_all add: set_state_def Let_def)


lemma set_state_ok:
  assumes "agent_ok full ks a"
  shows "agent_ok full ks (set_state s a)"
proof -
  have "row_ok full ks (fresh_row (a\<lparr>current_state := Some s\<rparr>))"
    using assms by (intro row_ok_exact) (simp add: keys_fresh_row agent_ok_def)
  then show ?thesis
    using assms by (simp add: set_state_def Let_def agent_ok_def rows_keyed_dict_set)
qed

lemma update_learning_cases:
  "update_learning action reward a = a \<or>
   (\<exists>s r. current_state a = Some s \<and> dict_get (experience a) s = Some r \<and>
      update_learning action reward a =
        a\<lparr>experience := dict_set s
             (dict_set action
                (dict_get_or r action 0 + learning_rate a * (reward - dict_get_or r action 0)) r)
             (experience a),
          behaviors := dict_set action
             (dict_get_or (behaviors a) action 0 + learning_rate a * reward) (behaviors a),
          total_rewards := total_rewards a + reward\<rparr>)"
  by (auto simp: update_learning_def update_learning_body_def Let_def split: option.splits)

lemma update_learning_frame:
  "agent_id (update_learning action reward a) = agent_id a"
  "config_path (update_learning action reward a) = config_path a"
  "current_state (update_learning action reward a) = current_state a"
  using update_learning_cases [of action reward a] by auto

lemma update_learning_ok:
  assumes "agent_ok full ks a" and "action \<in> set ks"
  shows "agent_ok full ks (update_learning action reward a)"
  using update_learning_cases [of action reward a]
proof
  assume "update_learning action reward a = a"
  with assms show ?thesis by simp
next
  assume "\<exists>s r. current_state a = Some s \<and> dict_get (experience a) s = Some r \<and>
      update_learning action reward a =
        a\<lparr>experience := dict_set s
             (dict_set action
                (dict_get_or r action 0 + learning_rate a * (reward - dict_get_or r action 0)) r)
             (experience a),
          behaviors := dict_set action
             (dict_get_or (behaviors a) action 0 + learning_rate a * reward) (behaviors a),
          total_rewards := total_rewards a + reward\<rparr>"
  then obtain s r where row: "dict_get (experience a) s = Some r"
    and eq: "update_learning action reward a =
        a\<lparr>experience := dict_set s
             (dict_set action
                (dict_get_or r action 0 + learning_rate a * (reward - dict_get_or r action 0)) r)
             (experience a),
          behaviors := dict_set action
             (dict_get_or (behaviors a) action 0 + learning_rate a * reward) (behaviors a),
          total_rewards := total_rewards a + reward\<rparr>"
    by blast
  from assms(1) have rk: "rows_keyed full ks (experience a)"
    and bk: "set (dict_keys (behaviors a)) = set ks"
    by (simp_all add: agent_ok_def)
  have "row_ok full ks r"
    by (rule rows_keyed_lookup [OF rk row])
  then have "row_ok full ks (dict_set action v r)" for v
    using assms(2) by (rule row_ok_dict_set)
  then have "rows_keyed full ks (dict_set s (dict_set action v r) (experience a))" for v
    by (rule rows_keyed_dict_set [OF rk])
  moreover have "set (dict_keys (dict_set action v (behaviors a))) = set ks" for v
    using assms(2) bk by (auto simp: keys_dict_set)
  ultimately show ?thesis
    by (simp add: eq agent_ok_def)
qed


lemma random_choice_mem: "random_choice i xs = Inr x \<Longrightarrow> x \<in> set xs"
  by (auto simp: random_choice_def split: if_splits)

lemma max_by_value_mem:
  assumes "max_by_value d = Inr k"
  shows "k \<in> set (dict_keys d)"
proof -
  from assms have "d \<noteq> []"
    by (auto simp: max_by_value_def)
  from max_by_value_greatest [OF this] assms obtain v where "(k, v) \<in> set d"
    by auto
  then show ?thesis
    by (force simp: dict_keys_def)
qed

lemma choose_action_known:
  assumes "agent_ok full ks a" and "choose_action a u i = Inr action"
  shows "action \<in> set ks"
proof -
  from assms(1) have rk: "rows_keyed full ks (experience a)"
    and bk: "set (dict_keys (behaviors a)) = set ks"
    by (simp_all add: agent_ok_def)
  have row: "set (dict_keys (dict_get_or (experience a) s (fresh_row a))) \<subseteq> set ks" for s
  proof (cases "dict_get (experience a) s")
    case None
    then show ?thesis
      by (simp add: dict_get_or_def dict_get_def keys_fresh_row bk)
  next
    case (Some r)
    then show ?thesis
      using rows_keyed_lookup [OF rk Some] by (simp add: dict_get_or_def dict_get_def row_ok_def)
  qed
  show ?thesis
  proof (cases "current_state a")
    case None
    with assms(2) bk show ?thesis
      by (auto simp: choose_action_def dest: random_choice_mem)
  next
    case (Some s)
    with assms(2) bk row [of s] show ?thesis
      by (auto simp: choose_action_def split: if_splits dest: random_choice_mem max_by_value_mem)
  qed
qed

lemma evolve_loop_frame:
  "agent_id (fst (snd (evolve_loop rnd n states a h))) = agent_id a \<and>
   config_path (fst (snd (evolve_loop rnd n states a h))) = config_path a"
  by (induction states arbitrary: a n h)
    (auto simp: Let_def set_state_frame update_learning_frame split: sum.splits)

lemma evolve_loop_ok:
  "agent_ok full ks a \<Longrightarrow> agent_ok full ks (fst (snd (evolve_loop rnd n states a h)))"
proof (induction states arbitrary: a n h)
  case Nil
  then show ?case by simp
next
  case (Cons state rest)
  let ?a1 = "set_state state a"
  have a1: "agent_ok full ks ?a1"
    by (rule set_state_ok [OF Cons.prems])
  show ?case
  proof (cases "choose_action ?a1 (unit_draw (rnd n)) (index_draw (rnd n))")
    case (Inl e)
    with a1 show ?thesis by (simp add: Let_def)
  next
    case (Inr action)
    have "action \<in> set ks"
      by (rule choose_action_known [OF a1 Inr])
    then have "agent_ok full ks (update_learning action reward ?a1)" for reward
      by (rule update_learning_ok [OF a1])
    then show ?thesis
      using Inr by (simp add: Let_def Cons.IH)
  qed
qed


lemma load_config_frame:
  "agent_id (load_config fs a) = agent_id a" "config_path (load_config fs a) = config_path a"
  "current_state (load_config fs a) = current_state a"
  using load_config_cases [of fs a] by auto

lemma load_config_ok:
  assumes "agent_ok full ks a" and "stored_ok full ks (agent_id a) (config_path a) fs"
  shows "agent_ok full ks (load_config fs a)"
  using load_config_cases [of fs a]
proof
  assume "load_config fs a = a"
  with assms(1) show ?thesis by simp
next
  assume "\<exists>config. files fs (config_path a) = Some (Doc config) \<and> p_agent_id config = Some (agent_id a) \<and>
      load_config fs a =
        a\<lparr>behaviors := (case p_behaviors config of None \<Rightarrow> behaviors a | Some b \<Rightarrow> b),
          experience := (case p_experience config of None \<Rightarrow> [] | Some x \<Rightarrow> x),
          total_rewards := (case p_total_rewards config of None \<Rightarrow> 0 | Some t \<Rightarrow> t)\<rparr>"
  then obtain config where f: "files fs (config_path a) = Some (Doc config)"
    and m: "p_agent_id config = Some (agent_id a)"
    and eq: "load_config fs a =
        a\<lparr>behaviors := (case p_behaviors config of None \<Rightarrow> behaviors a | Some b \<Rightarrow> b),
          experience := (case p_experience config of None \<Rightarrow> [] | Some x \<Rightarrow> x),
          total_rewards := (case p_total_rewards config of None \<Rightarrow> 0 | Some t \<Rightarrow> t)\<rparr>"
    by blast
  from assms(2) f m have
    b: "case p_behaviors config of None \<Rightarrow> True | Some b \<Rightarrow> set (dict_keys b) = set ks" and
    x: "case p_experience config of None \<Rightarrow> True | Some x \<Rightarrow> rows_keyed full ks x"
    by (simp_all add: stored_ok_def)
  from b assms(1) have
    "set (dict_keys (case p_behaviors config of None \<Rightarrow> behaviors a | Some b \<Rightarrow> b)) = set ks"
    by (simp add: agent_ok_def split: option.splits)
  moreover from x have
    "rows_keyed full ks (case p_experience config of None \<Rightarrow> [] | Some x \<Rightarrow> x)"
    by (simp add: rows_keyed_def split: option.splits)
  ultimately show ?thesis
    by (simp add: eq agent_ok_def)
qed

lemma stored_ok_log_append:
  "stored_ok full ks aid path fs \<Longrightarrow> stored_ok full ks aid path (log_append fs)"
  by (simp add: stored_ok_def files_log_append)

lemma save_config_stored_ok:
  assumes "agent_ok full ks a" and "stored_ok full ks (agent_id a) (config_path a) fs"
  shows "stored_ok full ks (agent_id a) (config_path a) (save_config now a fs)"
  using assms
  by (simp add: save_config_def save_config_body_def json_dump_def stored_ok_def agent_ok_def
      files_log_append)

lemma evolve_world_ok:
  assumes "world_ok full ks aid path (a, fs)"
  shows "world_ok full ks aid path (snd (evolve n ss rnd now (a, fs)))"
proof -
  obtain err a' h where loop: "evolve_loop rnd 0 (iterations n ss) a [] = (err, a', h)"
    by (cases "evolve_loop rnd 0 (iterations n ss) a []") auto
  from assms have ok: "agent_ok full ks a" and idp: "agent_id a = aid" "config_path a = path"
    and st: "stored_ok full ks aid path fs"
    by (simp_all add: world_ok_def)
  have ok': "agent_ok full ks a'"
    using evolve_loop_ok [OF ok, of rnd 0 "iterations n ss" "[]"] by (simp add: loop)
  have idp': "agent_id a' = aid" "config_path a' = path"
    using evolve_loop_frame [of rnd 0 "iterations n ss" a "[]"] idp by (simp_all add: loop)
  have stl: "stored_ok full ks aid path (log_append fs)"
    by (rule stored_ok_log_append [OF st])
  have st': "stored_ok full ks aid path (save_config now a' fs')"
    if "stored_ok full ks aid path fs'" for fs'
    using save_config_stored_ok [OF ok', of fs' now] that idp' by simp
  show ?thesis
    using ok' idp' stl st' [OF st] st' [OF stl]
    by (cases err) (simp_all add: evolve_def loop world_ok_def)
qed

lemma step_world_ok:
  assumes "world_ok full ks aid path w" and "known_action ks op"
  shows "world_ok full ks aid path (step op w)"
proof -
  obtain a fs where w: "w = (a, fs)" by (cases w)
  from assms(1) have ok: "agent_ok full ks a" and idp: "agent_id a = aid" "config_path a = path"
    and st: "stored_ok full ks aid path fs"
    by (simp_all add: world_ok_def w)
  have stl: "stored_ok full ks aid path (log_append fs)"
    by (rule stored_ok_log_append [OF st])
  show ?thesis
  proof (cases op)
    case LoadConfig
    then show ?thesis
      using load_config_ok [OF ok, of fs] st stl idp
      by (simp add: w world_ok_def load_config_frame)
  next
    case (SaveConfig now)
    then show ?thesis
      using save_config_stored_ok [OF ok, of fs now] ok st idp by (simp add: w world_ok_def)
  next
    case (SetState s)
    then show ?thesis
      using set_state_ok [OF ok, of s] st idp by (simp add: w world_ok_def set_state_frame)
  next
    case (ChooseAction u i)
    then show ?thesis
      using ok st stl idp by (simp add: w world_ok_def)
  next
    case (PerformAction action noise)
    then show ?thesis
      using ok stl idp by (simp add: w world_ok_def)
  next
    case (UpdateLearning action reward)
    with assms(2) have "action \<in> set ks" by simp
    from update_learning_ok [OF ok this, of reward] show ?thesis
      using st stl idp by (simp add: UpdateLearning w world_ok_def update_learning_frame)
  next
    case (Evolve n ss rnd now)
    then show ?thesis
      using evolve_world_ok [OF assms(1) [unfolded w]] by (simp add: w)
  next
    case GetSummary
    then show ?thesis
      using assms(1) by (simp add: w)
  qed
qed

lemma run_world_ok:
  "world_ok full ks aid path w \<Longrightarrow> list_all (known_action ks) ops \<Longrightarrow>
   world_ok full ks aid path (run ops w)"
  unfolding run_def
  by (induction ops arbitrary: w) (simp_all add: step_world_ok)

lemma construct_world_ok:
  assumes "stored_ok full (dict_keys bs) aid path (log_append fs)"
  shows "world_ok full (dict_keys bs) aid path (construct aid bs lr er path fs)"
proof -
  let ?d = "\<lparr>agent_id = aid, behaviors = bs, learning_rate = lr, exploration_rate = er,
            config_path = path, experience = [], current_state = None, total_rewards = 0\<rparr>"
  have "agent_ok full (dict_keys bs) ?d"
    by (simp add: agent_ok_def rows_keyed_def)
  then have "agent_ok full (dict_keys bs) (load_config (log_append fs) ?d)"
    using assms by (intro load_config_ok) simp_all
  then show ?thesis
    using assms by (simp add: construct_def init_def world_ok_def load_config_frame)
qed

lemma known_actions_iff:
  "list_all (known_action ks) ops \<longleftrightarrow>
   (\<forall>action reward. UpdateLearning action reward \<in> set ops \<longrightarrow> action \<in> set ks)"
proof (induction ops)
  case Nil
  show ?case by simp
next
  case (Cons op ops)
  then show ?case by (cases op) auto
qed



subsection \<open>The key set and the rows\<close>

lemma construct_demo:
  "construct ''agent_001'' [(''stake'', 0.5), (''claim'', 0.3)] 0.1 0.2 ''cfg.json'' no_files
     = (demo, log_append no_files)"
  by (simp add: construct_def demo_def)

lemma small_init_own:
  "init ''agent_001'' [(''stake'', 0.5)] 0.1 0.2 ''cfg.json'' own_storage =
     \<lparr>agent_id = ''agent_001'', behaviors = [(''idle'', 0.1)],
      learning_rate = 0.1, exploration_rate = 0.2, config_path = ''cfg.json'',
      experience = [(''login'', [(''stake'', 0.7)])], current_state = None, total_rewards = 3\<rparr>"
  by (simp add: init_on_cfg load_config_def load_config_body_def path_exists_def json_load_def
      own_storage_def own_doc_def)

lemma stray_init_eq:
  "init ''agent_001'' [(''stake'', 0.5)] 0.1 0.2 ''cfg.json'' stray_storage =
     \<lparr>agent_id = ''agent_001'', behaviors = [(''stake'', 0.5)],
      learning_rate = 0.1, exploration_rate = 0.2, config_path = ''cfg.json'',
      experience = [(''login'', [(''stake'', 0), (''zed'', 1)]), (''logout'', [(''stake'', 0)])],
      current_state = None, total_rewards = 0\<rparr>"
  by (simp add: init_on_cfg load_config_def load_config_body_def path_exists_def json_load_def
      stray_storage_def stray_doc_def)

lemma stray_evolve_eq:
  "fst (run [Evolve 0 (Some [''login'']) fixed_draws ''t'']
     (construct ''agent_001'' [(''stake'', 0.5)] 0.1 0.2 ''cfg.json'' stray_storage)) =
     \<lparr>agent_id = ''agent_001'', behaviors = [(''stake'', 0.5), (''zed'', 0)],
      learning_rate = 0.1, exploration_rate = 0.2, config_path = ''cfg.json'',
      experience = [(''login'', [(''stake'', 0), (''zed'', 0.9)]), (''logout'', [(''stake'', 0)])],
      current_state = Some ''login'', total_rewards = 0\<rparr>"
  unfolding construct_def stray_init_eq
  by (simp add: Let_def run_def evolve_def iterations_def set_state_def dict_get_def
      choose_action_def fixed_draws_def dict_get_or_def max_by_value_def perform_action_def
      update_learning_def update_learning_body_def)

lemma bribe_eq:
  "update_learning ''bribe'' 1 (set_state ''login'' demo) =
     \<lparr>agent_id = ''agent_001'', behaviors = [(''stake'', 0.5), (''claim'', 0.3), (''bribe'', 0.1)],
      learning_rate = 0.1, exploration_rate = 0.2, config_path = ''cfg.json'',
      experience = [(''login'', [(''stake'', 0), (''claim'', 0), (''bribe'', 0.1)])],
      current_state = Some ''login'', total_rewards = 1\<rparr>"
  unfolding at_login_eq
  by (simp add: update_learning_def update_learning_body_def dict_get_def dict_get_or_def)

text \<open>
  C2. After a construction whose \<open>load_config\<close> takes over nothing, or a record whose
  behaviors have the key set of the initial mapping and whose rows have keys of that
  set only (such as the agent's own earlier save), and through every sequence of public
  operations (\<open>load_config\<close> and \<open>evolve\<close> among them) whose calls of \<open>update_learning\<close>
  name keys of the initial mapping, the key set of \<open>behaviors\<close> is the key set of the
  initial mapping. The storage is read as the constructor finds it, after its own line
  in the log.
\<close>

theorem C2_known_actions_keep_key_set:
  assumes "record_within (dict_keys bs) aid path (log_append fs)"
    and "\<forall>action reward. UpdateLearning action reward \<in> set ops \<longrightarrow> action \<in> set (dict_keys bs)"
  shows "set (dict_keys (behaviors (fst (run ops (construct aid bs lr er path fs))))) = set (dict_keys bs)"
proof -
  have "world_ok False (dict_keys bs) aid path (run ops (construct aid bs lr er path fs))"
    using assms(2) by (intro run_world_ok construct_world_ok assms(1)) (simp add: known_actions_iff)
  then show ?thesis
    by (simp add: world_ok_def agent_ok_def)
qed

text \<open>
  None of the conditions can be dropped: \<open>update_learning\<close> with an action outside the
  set adds that action as a key; a construction that finds a record with other behaviors
  takes these in place of the mapping supplied; and from a record with a row that holds
  a key outside the set, \<open>evolve\<close> picks that key as the greedy choice and
  \<open>update_learning\<close> adds it.
\<close>

theorem C2_new_key_counterexample:
  "dict_keys (behaviors (fst (run [SetState ''login'', UpdateLearning ''bribe'' 1]
      (construct ''agent_001'' [(''stake'', 0.5), (''claim'', 0.3)] 0.1 0.2 ''cfg.json'' no_files))))
     = [''stake'', ''claim'', ''bribe''] \<and>
   dict_keys (behaviors (init ''agent_001'' [(''stake'', 0.5)] 0.1 0.2 ''cfg.json'' own_storage))
     = [''idle''] \<and>
   dict_keys (behaviors (init ''agent_001'' [(''stake'', 0.5)] 0.1 0.2 ''cfg.json'' stray_storage))
     = [''stake''] \<and>
   dict_keys (behaviors (fst (run [Evolve 0 (Some [''login'']) fixed_draws ''t'']
      (construct ''agent_001'' [(''stake'', 0.5)] 0.1 0.2 ''cfg.json'' stray_storage))))
     = [''stake'', ''zed'']"
proof -
  have "fst (run [SetState ''login'', UpdateLearning ''bribe'' 1]
      (construct ''agent_001'' [(''stake'', 0.5), (''claim'', 0.3)] 0.1 0.2 ''cfg.json'' no_files))
    = update_learning ''bribe'' 1 (set_state ''login'' demo)"
    unfolding construct_demo by (simp add: run_def)
  then show ?thesis
    unfolding stray_evolve_eq stray_init_eq small_init_own bribe_eq
    by (simp add: dict_keys_def)
qed

theorem C2_known_actions_keep_key_set_witness:
  "total_rewards (init ''agent_001'' [(''claim'', 9), (''stake'', 9)] 0.5 0 ''cfg.json''
      (save_config ''t0'' learnt no_files)) = 1 \<and>
   set (dict_keys (behaviors (fst (run [SetState ''logout'', UpdateLearning ''stake'' 1,
        SaveConfig ''t1'', LoadConfig, Evolve 0 (Some [''login'']) fixed_draws ''t2'', GetSummary]
        (construct ''agent_001'' [(''claim'', 9), (''stake'', 9)] 0.5 0 ''cfg.json''
           (save_config ''t0'' learnt no_files))))))
     = set (dict_keys [(''claim'', 9::real), (''stake'', 9)])"
proof -
  have t: "total_rewards (init ''agent_001'' [(''claim'', 9), (''stake'', 9)] 0.5 0 ''cfg.json''
      (save_config ''t0'' learnt no_files)) = 1"
    by (simp add: init_on_cfg load_config_def load_config_body_def path_exists_def json_load_def
        save_config_def save_config_body_def json_dump_def files_log_append log_path_def
        learnt_eq no_files_def)
  have h1: "record_within (dict_keys [(''claim'', 9::real), (''stake'', 9)]) ''agent_001'' ''cfg.json''
      (log_append (save_config ''t0'' learnt no_files))"
    by (auto simp: stored_ok_def save_config_def save_config_body_def json_dump_def
        files_log_append log_path_def learnt_eq no_files_def rows_keyed_def row_ok_def dict_keys_def)
  have h2: "\<forall>action reward.
      UpdateLearning action reward \<in> set [SetState ''logout'', UpdateLearning ''stake'' 1,
        SaveConfig ''t1'', LoadConfig, Evolve 0 (Some [''login'']) fixed_draws ''t2'', GetSummary]
      \<longrightarrow> action \<in> set (dict_keys [(''claim'', 9::real), (''stake'', 9)])"
    by (simp add: dict_keys_def)
  from C2_known_actions_keep_key_set [OF h1 h2] t show ?thesis
    by (intro conjI)
qed

text \<open>
  C4. After a construction whose \<open>load_config\<close> takes over nothing, or a record whose
  behaviors and rows all have exactly the key set of the initial mapping, and through
  every sequence of public operations whose calls of \<open>update_learning\<close> name keys of the
  initial mapping, every state key of the table maps to a row with an entry for every
  key of \<open>behaviors\<close>.
\<close>

theorem C4_rows_cover_behaviors:
  assumes "record_keyed (dict_keys bs) aid path (log_append fs)"
    and "\<forall>action reward. UpdateLearning action reward \<in> set ops \<longrightarrow> action \<in> set (dict_keys bs)"
  shows "\<forall>s r. dict_get (experience (fst (run ops (construct aid bs lr er path fs)))) s = Some r \<longrightarrow>
           (\<forall>b \<in> set (dict_keys (behaviors (fst (run ops (construct aid bs lr er path fs))))).
              dict_get r b \<noteq> None)"
proof -
  let ?a = "fst (run ops (construct aid bs lr er path fs))"
  have "world_ok True (dict_keys bs) aid path (run ops (construct aid bs lr er path fs))"
    using assms(2) by (intro run_world_ok construct_world_ok assms(1)) (simp add: known_actions_iff)
  then have bk: "set (dict_keys (behaviors ?a)) = set (dict_keys bs)"
    and rk: "rows_keyed True (dict_keys bs) (experience ?a)"
    by (simp_all add: world_ok_def agent_ok_def)
  show ?thesis
  proof (intro allI impI ballI)
    fix s r b
    assume "dict_get (experience ?a) s = Some r" and "b \<in> set (dict_keys (behaviors ?a))"
    with rows_keyed_lookup [OF rk] bk have "b \<in> set (dict_keys r)"
      by (auto simp: row_ok_def)
    then show "dict_get r b \<noteq> None"
      by (simp add: dict_get_None_iff)
  qed
qed

text \<open>
  None of the conditions can be dropped. After \<open>update_learning\<close> with a new action, the
  action is a key of \<open>behaviors\<close> and of the current row only; a construction may take
  over a record whose rows lack a key of its behaviors; and from a record with a row
  that holds one key more, \<open>evolve\<close> brings that key into \<open>behaviors\<close> while the other rows
  lack it.
\<close>

theorem C4_missing_entry_counterexample:
  "dict_get (experience (fst (run [SetState ''login'', SetState ''logout'', UpdateLearning ''bribe'' 1]
       (construct ''agent_001'' [(''stake'', 0.5), (''claim'', 0.3)] 0.1 0.2 ''cfg.json'' no_files))))
     ''login'' = Some [(''stake'', 0), (''claim'', 0)] \<and>
   ''bribe'' \<in> set (dict_keys (behaviors (fst (run
       [SetState ''login'', SetState ''logout'', UpdateLearning ''bribe'' 1]
       (construct ''agent_001'' [(''stake'', 0.5), (''claim'', 0.3)] 0.1 0.2 ''cfg.json'' no_files))))) \<and>
   dict_get [(''stake'', 0), (''claim'', 0::real)] ''bribe'' = None \<and>
   dict_get (experience (init ''agent_001'' [(''stake'', 0.5)] 0.1 0.2 ''cfg.json'' own_storage)) ''login''
     = Some [(''stake'', 0.7)] \<and>
   ''idle'' \<in> set (dict_keys (behaviors (init ''agent_001'' [(''stake'', 0.5)] 0.1 0.2 ''cfg.json''
       own_storage))) \<and>
   dict_get [(''stake'', 0.7::real)] ''idle'' = None \<and>
   dict_get (experience (fst (run [Evolve 0 (Some [''login'']) fixed_draws ''t'']
      (construct ''agent_001'' [(''stake'', 0.5)] 0.1 0.2 ''cfg.json'' stray_storage)))) ''logout''
     = Some [(''stake'', 0)] \<and>
   ''zed'' \<in> set (dict_keys (behaviors (fst (run [Evolve 0 (Some [''login'']) fixed_draws ''t'']
      (construct ''agent_001'' [(''stake'', 0.5)] 0.1 0.2 ''cfg.json'' stray_storage))))) \<and>
   dict_get [(''stake'', 0::real)] ''zed'' = None"
proof -
  have "set_state ''logout'' (set_state ''login'' demo) =
     \<lparr>agent_id = ''agent_001'', behaviors = [(''stake'', 0.5), (''claim'', 0.3)],
      learning_rate = 0.1, exploration_rate = 0.2, config_path = ''cfg.json'',
      experience = [(''login'', [(''stake'', 0), (''claim'', 0)]),
                    (''logout'', [(''stake'', 0), (''claim'', 0)])],
      current_state = Some ''logout'', total_rewards = 0\<rparr>"
    unfolding at_login_eq by (simp add: set_state_def dict_get_def fresh_row_def dict_keys_def)
  then have "update_learning ''bribe'' 1 (set_state ''logout'' (set_state ''login'' demo)) =
     \<lparr>agent_id = ''agent_001'', behaviors = [(''stake'', 0.5), (''claim'', 0.3), (''bribe'', 0.1)],
      learning_rate = 0.1, exploration_rate = 0.2, config_path = ''cfg.json'',
      experience = [(''login'', [(''stake'', 0), (''claim'', 0)]),
                    (''logout'', [(''stake'', 0), (''claim'', 0), (''bribe'', 0.1)])],
      current_state = Some ''logout'', total_rewards = 1\<rparr>"
    by (simp add: update_learning_def update_learning_body_def dict_get_def dict_get_or_def)
  moreover have "fst (run [SetState ''login'', SetState ''logout'', UpdateLearning ''bribe'' 1]
       (construct ''agent_001'' [(''stake'', 0.5), (''claim'', 0.3)] 0.1 0.2 ''cfg.json'' no_files))
    = update_learning ''bribe'' 1 (set_state ''logout'' (set_state ''login'' demo))"
    unfolding construct_demo by (simp add: run_def)
  ultimately have "fst (run [SetState ''login'', SetState ''logout'', UpdateLearning ''bribe'' 1]
       (construct ''agent_001'' [(''stake'', 0.5), (''claim'', 0.3)] 0.1 0.2 ''cfg.json'' no_files))
    = \<lparr>agent_id = ''agent_001'', behaviors = [(''stake'', 0.5), (''claim'', 0.3), (''bribe'', 0.1)],
      learning_rate = 0.1, exploration_rate = 0.2, config_path = ''cfg.json'',
      experience = [(''login'', [(''stake'', 0), (''claim'', 0)]),
                    (''logout'', [(''stake'', 0), (''claim'', 0), (''bribe'', 0.1)])],
      current_state = Some ''logout'', total_rewards = 1\<rparr>"
    by simp
  then show ?thesis
    unfolding stray_evolve_eq small_init_own
    by (simp add: dict_keys_def dict_get_def)
qed

theorem C4_rows_cover_behaviors_witness:
  "total_rewards (init ''agent_001'' [(''claim'', 9), (''stake'', 9)] 0.5 0 ''cfg.json''
      (save_config ''t0'' learnt no_files)) = 1 \<and>
   dict_get (experience (fst (run [SetState ''logout'', UpdateLearning ''claim'' 1]
       (construct ''agent_001'' [(''claim'', 9), (''stake'', 9)] 0.5 0 ''cfg.json''
          (save_config ''t0'' learnt no_files))))) ''login'' = Some [(''stake'', 0.1), (''claim'', 0)] \<and>
   ''claim'' \<in> set (dict_keys (behaviors (fst (run [SetState ''logout'', UpdateLearning ''claim'' 1]
       (construct ''agent_001'' [(''claim'', 9), (''stake'', 9)] 0.5 0 ''cfg.json''
          (save_config ''t0'' learnt no_files)))))) \<and>
   dict_get [(''stake'', 0.1), (''claim'', 0::real)] ''claim'' \<noteq> None"
proof -
  have i: "init ''agent_001'' [(''claim'', 9), (''stake'', 9)] 0.5 0 ''cfg.json''
      (save_config ''t0'' learnt no_files) =
     \<lparr>agent_id = ''agent_001'', behaviors = [(''stake'', 0.6), (''claim'', 0.3)],
      learning_rate = 0.5, exploration_rate = 0, config_path = ''cfg.json'',
      experience = [(''login'', [(''stake'', 0.1), (''claim'', 0)])],
      current_state = None, total_rewards = 1\<rparr>"
    by (simp add: init_on_cfg load_config_def load_config_body_def path_exists_def json_load_def
        save_config_def save_config_body_def json_dump_def files_log_append log_path_def
        learnt_eq no_files_def)
  have t: "total_rewards (init ''agent_001'' [(''claim'', 9), (''stake'', 9)] 0.5 0 ''cfg.json''
      (save_config ''t0'' learnt no_files)) = 1"
    unfolding i by simp
  have r: "fst (run [SetState ''logout'', UpdateLearning ''claim'' 1]
       (construct ''agent_001'' [(''claim'', 9), (''stake'', 9)] 0.5 0 ''cfg.json''
          (save_config ''t0'' learnt no_files))) =
     \<lparr>agent_id = ''agent_001'', behaviors = [(''stake'', 0.6), (''claim'', 0.8)],
      learning_rate = 0.5, exploration_rate = 0, config_path = ''cfg.json'',
      experience = [(''login'', [(''stake'', 0.1), (''claim'', 0)]),
                    (''logout'', [(''stake'', 0), (''claim'', 0.5)])],
      current_state = Some ''logout'', total_rewards = 2\<rparr>"
    unfolding construct_def i
    by (simp add: run_def set_state_def dict_get_def fresh_row_def dict_keys_def
        update_learning_def update_learning_body_def dict_get_or_def)
  have h1: "record_keyed (dict_keys [(''claim'', 9::real), (''stake'', 9)]) ''agent_001'' ''cfg.json''
      (log_append (save_config ''t0'' learnt no_files))"
    by (auto simp: stored_ok_def save_config_def save_config_body_def json_dump_def
        files_log_append log_path_def learnt_eq no_files_def rows_keyed_def row_ok_def dict_keys_def)
  have h2: "\<forall>action reward.
      UpdateLearning action reward \<in> set [SetState ''logout'', UpdateLearning ''claim'' 1]
      \<longrightarrow> action \<in> set (dict_keys [(''claim'', 9::real), (''stake'', 9)])"
    by (simp add: dict_keys_def)
  have row: "dict_get (experience (fst (run [SetState ''logout'', UpdateLearning ''claim'' 1]
       (construct ''agent_001'' [(''claim'', 9), (''stake'', 9)] 0.5 0 ''cfg.json''
          (save_config ''t0'' learnt no_files))))) ''login'' = Some [(''stake'', 0.1), (''claim'', 0)]"
    unfolding r by (simp add: dict_get_def)
  have key: "''claim'' \<in> set (dict_keys (behaviors (fst (run
       [SetState ''logout'', UpdateLearning ''claim'' 1]
       (construct ''agent_001'' [(''claim'', 9), (''stake'', 9)] 0.5 0 ''cfg.json''
          (save_config ''t0'' learnt no_files))))))"
    unfolding r by (simp add: dict_keys_def)
  from C4_rows_cover_behaviors [OF h1 h2, of "0.5" 0] row key
  have "dict_get [(''stake'', 0.1), (''claim'', 0::real)] ''claim'' \<noteq> None"
    by blast
  with t row key show ?thesis
    by (intro conjI)
qed









end
